theory Spec2Isabelle
  imports Complex_Main
begin

section \<open>JavaScript values\<close>

text \<open>
  \<^verbatim>\<open>src/App.jsx\<close> is the page of a house price estimator. The file holds two
  revisions of the page: lines 1 to 279, whose functions the file \<^verbatim>\<open>unnamed/part_000\<close>
  repeats line for line, and lines 280 to 599, an earlier page that also draws a chart.
  Line numbers below are those of \<^verbatim>\<open>src/App.jsx\<close>.

  The valuation code computes with JavaScript numbers. They are modelled as real numbers:
  a double is idealised to the number it stands for, and no rounding error of the
  floating-point operations is modelled. The one number of the code that may be NaN is
  the year read from a date; it is an \<open>int option\<close>, \<open>None\<close> being NaN.

  \<^verbatim>\<open>Math.round\<close> rounds to the nearest integer, a tie going up.
\<close>

definition Math_round :: "real \<Rightarrow> int" where
  "Math_round x = \<lfloor>x + 1 / 2\<rfloor>"

text \<open>
  \<^verbatim>\<open>v || d\<close> for a number \<open>v\<close> read from an object: the default \<open>d\<close> is taken when
  the property is undefined (\<open>None\<close>) and also when it is the falsy number 0.
\<close>

definition or_default :: "real option \<Rightarrow> real \<Rightarrow> real" where
  "or_default v d = (case v of None \<Rightarrow> d | Some x \<Rightarrow> if x = 0 then d else x)"

text \<open>
  \<^verbatim>\<open>s.includes(t)\<close>: \<open>t\<close> occurs in \<open>s\<close> as a contiguous run of characters. The two
  patterns of the code are ASCII, so searching the bytes of a UTF-8 string finds what
  searching its UTF-16 code units finds.
\<close>

fun startsWith :: "string \<Rightarrow> string \<Rightarrow> bool" where
  "startsWith s [] = True"
| "startsWith [] (c # t) = False"
| "startsWith (a # s) (c # t) = (a = c \<and> startsWith s t)"

fun str_includes :: "string \<Rightarrow> string \<Rightarrow> bool" where
  "str_includes [] t = (t = [])"
| "str_includes (a # s) t = (startsWith (a # s) t \<or> str_includes s t)"

text \<open>
  A value that is a string or absent (undefined or null) is a \<open>string option\<close>. It is
  truthy when it is a string that is not empty.
\<close>

definition truthy :: "string option \<Rightarrow> bool" where
  "truthy v = (case v of None \<Rightarrow> False | Some s \<Rightarrow> s \<noteq> [])"

text \<open>
  What the code can do wrong at run time: read a property of undefined, which throws a
  TypeError, and divide by zero, which throws nothing but gives Infinity or NaN. The model
  reports the second case as a value of its own as well, so a result that the model
  returns has numbers in all its fields.
\<close>

datatype failure = TypeError | NotFinite

section \<open>The index table\<close>

text \<open>
  \<^verbatim>\<open>HPI_DATA\<close> (lines 9 to 13) maps a region key to an object that maps a year to an
  index value. Both are read by key only, so they are association lists searched with
  \<open>map_of\<close>: \<open>None\<close> is the undefined of a missing key. The keys looked up are region
  names, as the postcode lookup produces them; the properties every JavaScript object
  inherits (\<^verbatim>\<open>constructor\<close>, \<^verbatim>\<open>toString\<close>, ...) are not region names and are not
  part of the model.
\<close>

type_synonym index_table = "(int \<times> real) list"

definition London_table :: index_table where
  "London_table = [(2000, 38.2), (2010, 85.2), (2015, 100.0), (2020, 120.5), (2024, 130.5)]"

definition South_East_table :: index_table where
  "South_East_table = [(2000, 42.1), (2010, 84.1), (2015, 100.0), (2020, 121.5), (2024, 138.2)]"

definition UK_Average_table :: index_table where
  "UK_Average_table = [(2000, 43.5), (2010, 84.5), (2015, 100.0), (2020, 122.5), (2024, 143.2)]"

definition HPI_DATA :: "(string \<times> index_table) list" where
  "HPI_DATA =
     [(''London'', London_table),
      (''South East'', South_East_table),
      (''UK Average'', UK_Average_table)]"

section \<open>Property records and valuation results\<close>

text \<open>
  A property record as \<^verbatim>\<open>MOCK_PROPERTIES\<close> (line 16) and the backend give it. The
  date of the last sale is a string or absent; the price of the last sale is an integer,
  0 when no sale is known.
\<close>

record property =
  ident :: string
  address :: string
  city :: string
  postcode :: string
  ptype :: string
  sqMeters :: real
  epc :: string
  lastSoldDate :: "string option"
  lastSoldPrice :: int

record valuation =
  estimatedValue :: int
  lowerBound :: int
  upperBound :: int
  growthFactor :: real

text \<open>
  \<^verbatim>\<open>new Date(d).getFullYear()\<close> belongs to the JavaScript runtime and depends on the time
  zone of the browser. The model takes it as a parameter: a function from the value of
  \<^verbatim>\<open>lastSoldDate\<close> to a year, or to \<open>None\<close> when the date is invalid and the year NaN.
  Every theorem below holds for every such function.
\<close>

type_synonym date_reader = "string option \<Rightarrow> int option"

section \<open>The valuation (lines 43 to 63)\<close>

definition currentYear :: int where
  "currentYear = 2024"

text \<open>Line 44: the year of the sale, 2015 when the record has no date.\<close>

definition soldYearOf :: "date_reader \<Rightarrow> property \<Rightarrow> int option" where
  "soldYearOf getFullYear p =
     (if truthy (lastSoldDate p) then getFullYear (lastSoldDate p) else Some 2015)"

text \<open>Line 46: \<^verbatim>\<open>HPI_DATA[regionKey] || HPI_DATA["UK Average"]\<close>.\<close>

definition indexDataOf :: "string \<Rightarrow> index_table option" where
  "indexDataOf regionKey =
     (case map_of HPI_DATA regionKey of
        Some t \<Rightarrow> Some t
      | None \<Rightarrow> map_of HPI_DATA ''UK Average'')"

text \<open>\<^verbatim>\<open>indexData[year]\<close> for a year that may be NaN: NaN is the key of no entry.\<close>

definition yearEntry :: "index_table \<Rightarrow> int option \<Rightarrow> real option" where
  "yearEntry indexData year = (case year of None \<Rightarrow> None | Some y \<Rightarrow> map_of indexData y)"

text \<open>Lines 49 and 50.\<close>

definition indexOld :: "index_table \<Rightarrow> int option \<Rightarrow> real" where
  "indexOld indexData soldYear = or_default (yearEntry indexData soldYear) 100"

definition indexNew :: "index_table \<Rightarrow> real" where
  "indexNew indexData = or_default (yearEntry indexData (Some currentYear)) 143.2"

definition calculateValuation :: "date_reader \<Rightarrow> property \<Rightarrow> string \<Rightarrow> failure + valuation" where
  "calculateValuation getFullYear p regionKey =
     (let soldYear = soldYearOf getFullYear p in
      case indexDataOf regionKey of
        None \<Rightarrow> Inl TypeError
      | Some indexData \<Rightarrow>
          if indexOld indexData soldYear = 0 then Inl NotFinite
          else
            let growth = indexNew indexData / indexOld indexData soldYear;
                estimated =
                  (if lastSoldPrice p > 0
                   then Math_round (of_int (lastSoldPrice p) * growth) else 0)
            in Inr \<lparr>estimatedValue = estimated,
                    lowerBound = Math_round (of_int estimated * 0.95),
                    upperBound = Math_round (of_int estimated * 1.05),
                    growthFactor = growth\<rparr>)"



section \<open>The revision that draws the price trend (lines 280 to 599)\<close>

text \<open>
  \<^verbatim>\<open>src/App.jsx\<close> holds a second revision of the page after line 279. Its table has an
  entry for every year from 2000 to 2024 (lines 290 to 306), and its
  \<^verbatim>\<open>calculateValuation\<close> (lines 342 to 365) also returns the series of the chart.
\<close>

definition London_yearly :: index_table where
  "London_yearly =
     [(2000, 38.2), (2001, 42.5), (2002, 49.8), (2003, 54.1), (2004, 60.2),
      (2005, 63.5), (2006, 69.8), (2007, 84.2), (2008, 82.1), (2009, 76.5),
      (2010, 85.2), (2011, 86.1), (2012, 90.3), (2013, 98.5), (2014, 115.2),
      (2015, 100.0), (2016, 112.5), (2017, 116.8), (2018, 115.9), (2019, 114.8),
      (2020, 120.5), (2021, 126.2), (2022, 134.5), (2023, 131.2), (2024, 130.5)]"

definition South_East_yearly :: index_table where
  "South_East_yearly =
     [(2000, 42.1), (2001, 47.5), (2002, 56.8), (2003, 64.2), (2004, 70.1),
      (2005, 72.5), (2006, 76.8), (2007, 85.2), (2008, 83.5), (2009, 75.2),
      (2010, 84.1), (2011, 83.5), (2012, 85.2), (2013, 88.5), (2014, 96.2),
      (2015, 100.0), (2016, 110.5), (2017, 115.2), (2018, 116.5), (2019, 115.8),
      (2020, 121.5), (2021, 132.2), (2022, 142.5), (2023, 139.5), (2024, 138.2)]"

definition UK_Average_yearly :: index_table where
  "UK_Average_yearly =
     [(2000, 43.5), (2001, 47.8), (2002, 56.2), (2003, 66.8), (2004, 75.2),
      (2005, 78.5), (2006, 82.8), (2007, 90.2), (2008, 88.5), (2009, 78.2),
      (2010, 84.5), (2011, 83.2), (2012, 84.5), (2013, 87.8), (2014, 94.5),
      (2015, 100.0), (2016, 107.5), (2017, 112.2), (2018, 115.5), (2019, 116.8),
      (2020, 122.5), (2021, 134.2), (2022, 145.5), (2023, 142.5), (2024, 143.2)]"

definition HPI_DATA_yearly :: "(string \<times> index_table) list" where
  "HPI_DATA_yearly =
     [(''London'', London_yearly),
      (''South East'', South_East_yearly),
      (''UK Average'', UK_Average_yearly)]"

definition indexDataOf_yearly :: "string \<Rightarrow> index_table option" where
  "indexDataOf_yearly regionKey =
     (case map_of HPI_DATA_yearly regionKey of
        Some t \<Rightarrow> Some t
      | None \<Rightarrow> map_of HPI_DATA_yearly ''UK Average'')"

text \<open>
  A point of the chart: the year, the index of the year and the value of the property in
  that year.
\<close>

type_synonym chart_point = "int \<times> real \<times> int"

record report = valuation +
  chartData :: "chart_point list"
  regionKey :: string

text \<open>
  Line 357, \<^verbatim>\<open>year >= soldYear\<close>: the key is a year, and every comparison with NaN is
  false.
\<close>

definition year_ge :: "int \<Rightarrow> int option \<Rightarrow> bool" where
  "year_ge year soldYear = (case soldYear of None \<Rightarrow> False | Some s \<Rightarrow> s \<le> year)"

text \<open>
  Lines 356 to 362. \<^verbatim>\<open>Object.keys\<close> lists the integer keys of an object in ascending
  order, which is the order in which the tables are written, and \<^verbatim>\<open>indexData[year]\<close> at
  a key of the object is the value written beside it: the chain of \<^verbatim>\<open>filter\<close> and
  \<^verbatim>\<open>map\<close> is one pass over the entries of the table.
\<close>

definition chartDataOf :: "index_table \<Rightarrow> int option \<Rightarrow> int \<Rightarrow> chart_point list" where
  "chartDataOf indexData soldYear price =
     map (\<lambda>(year, index).
            (year, index, Math_round (of_int price * (index / indexOld indexData soldYear))))
         (filter (\<lambda>(year, index). year_ge year soldYear) indexData)"

text \<open>
  This revision reads the year of \<^verbatim>\<open>lastSoldDate\<close> whatever the field holds (line 343)
  and rounds the product whatever the price is (line 351).
\<close>

definition calculateValuation_chart :: "date_reader \<Rightarrow> property \<Rightarrow> string \<Rightarrow> failure + report" where
  "calculateValuation_chart getFullYear p key =
     (let soldYear = getFullYear (lastSoldDate p) in
      case indexDataOf_yearly key of
        None \<Rightarrow> Inl TypeError
      | Some indexData \<Rightarrow>
          if indexOld indexData soldYear = 0 then Inl NotFinite
          else
            let growth = indexNew indexData / indexOld indexData soldYear;
                estimated = Math_round (of_int (lastSoldPrice p) * growth)
            in Inr \<lparr>estimatedValue = estimated,
                    lowerBound = Math_round (of_int estimated * 0.95),
                    upperBound = Math_round (of_int estimated * 1.05),
                    growthFactor = growth,
                    chartData = chartDataOf indexData soldYear (lastSoldPrice p),
                    regionKey = key\<rparr>)"

section \<open>The region of a postcode\<close>

text \<open>
  Both revisions ask \<^verbatim>\<open>api.postcodes.io\<close> for the postcode and turn the region label of
  the reply into a key of the table. The request is outside the program; the model takes
  its outcome: a reply with a status, the fields \<^verbatim>\<open>region\<close>, \<^verbatim>\<open>admin_district\<close> and
  \<^verbatim>\<open>postcode\<close> of its result, or a failure (the request or the reading of the reply
  threw, and the \<^verbatim>\<open>catch\<close> took over).
\<close>

datatype postcode_reply =
  Lookup_failed
  | Reply (status: int) (region: "string option") (admin_district: "string option")
      (formatted: string)

text \<open>\<^verbatim>\<open>data.result.region || data.result.admin_district\<close> (lines 25 and 320).\<close>

definition regionLabel :: "string option \<Rightarrow> string option \<Rightarrow> string option" where
  "regionLabel r d = (if truthy r then r else d)"

text \<open>\<^verbatim>\<open>region && region.includes(t)\<close>.\<close>

definition labelIncludes :: "string option \<Rightarrow> string \<Rightarrow> bool" where
  "labelIncludes label t =
     (case label of None \<Rightarrow> False | Some s \<Rightarrow> s \<noteq> [] \<and> str_includes s t)"

text \<open>
  Lines 26 to 28 of \<^verbatim>\<open>getPostcodeDetails\<close>: a variable that two independent tests
  overwrite, one after the other.
\<close>

definition regionKeyOf :: "string option \<Rightarrow> string" where
  "regionKeyOf label =
     (let key = ''UK Average'';
          key = (if labelIncludes label ''London'' then ''London'' else key);
          key = (if labelIncludes label ''South East'' then ''South East'' else key)
      in key)"

definition getPostcodeDetails :: "postcode_reply \<Rightarrow> string \<Rightarrow> string \<times> string" where
  "getPostcodeDetails reply inputPostcode =
     (case reply of
        Lookup_failed \<Rightarrow> (''UK Average'', inputPostcode)
      | Reply st r d pc \<Rightarrow>
          if st = 200 then (regionKeyOf (regionLabel r d), pc)
          else (''UK Average'', inputPostcode))"

text \<open>
  Lines 321 to 323 of \<^verbatim>\<open>getRegionForPostcode\<close>, the same step in the revision with
  the chart: each test returns at once.
\<close>

definition regionOf :: "string option \<Rightarrow> string" where
  "regionOf label =
     (if labelIncludes label ''London'' then ''London''
      else if labelIncludes label ''South East'' then ''South East''
      else ''UK Average'')"

definition getRegionForPostcode :: "postcode_reply \<Rightarrow> string" where
  "getRegionForPostcode reply =
     (case reply of
        Lookup_failed \<Rightarrow> ''UK Average''
      | Reply st r d pc \<Rightarrow> if st = 200 then regionOf (regionLabel r d) else ''UK Average'')"

section \<open>The lookup of the specification\<close>

text \<open>
  The specification describes the two lookups of the code as one function
  \<open>indexFor(region, year)\<close>: direct access to the table; the table of \<open>UK_AVERAGE\<close> when
  the region is not in the table; the constant 100.0 when the year is not in the table of
  the region. The definition follows these words, for comparison with the code. A year
  is a number of the code, so it may be NaN, which is a year of no table.
\<close>

definition spec_indexFor ::
  "(string \<times> index_table) list \<Rightarrow> index_table \<Rightarrow> string \<Rightarrow> int option \<Rightarrow> real" where
  "spec_indexFor table uk_average r year =
     (let t = (case map_of table r of Some t \<Rightarrow> t | None \<Rightarrow> uk_average)
      in case yearEntry t year of Some v \<Rightarrow> v | None \<Rightarrow> 100)"

definition indexFor :: "string \<Rightarrow> int option \<Rightarrow> real" where
  "indexFor = spec_indexFor HPI_DATA UK_Average_table"

definition indexFor_yearly :: "string \<Rightarrow> int option \<Rightarrow> real" where
  "indexFor_yearly = spec_indexFor HPI_DATA_yearly UK_Average_yearly"

section \<open>Auxiliary definitions\<close>

text \<open>Every index value of a table is strictly positive.\<close>

definition positive_table :: "index_table \<Rightarrow> bool" where
  "positive_table t = list_all (\<lambda>(y, v). 0 < v) t"

text \<open>
  The record of \<^verbatim>\<open>MOCK_PROPERTIES\<close> (line 16), which the page shows when the backend
  cannot be reached; the examples below are run on it.
\<close>

definition downing_street :: property where
  "downing_street =
     \<lparr>ident = ''1'', address = ''10 Downing Street'', city = ''London'',
      postcode = ''SW1A 1AA'', ptype = ''Terraced'', sqMeters = 240, epc = ''C'',
      lastSoldDate = Some ''2005-06-15'', lastSoldPrice = 4500000\<rparr>"

definition MOCK_PROPERTIES :: "property list" where
  "MOCK_PROPERTIES = [downing_street]"

section \<open>Facts\<close>

subsection \<open>The tables and the two lookups\<close>

lemma or_default_nonzero: "d \<noteq> 0 \<Longrightarrow> or_default v d \<noteq> 0"
  by (simp add: or_default_def split: option.splits)

lemma indexDataOf_cases:
  "indexDataOf k = Some London_table \<or> indexDataOf k = Some South_East_table
   \<or> indexDataOf k = Some UK_Average_table"
  by (simp add: indexDataOf_def HPI_DATA_def)

lemma indexDataOf_yearly_cases:
  "indexDataOf_yearly k = Some London_yearly \<or> indexDataOf_yearly k = Some South_East_yearly
   \<or> indexDataOf_yearly k = Some UK_Average_yearly"
  by (simp add: indexDataOf_yearly_def HPI_DATA_yearly_def)

lemma positive_tables:
  "positive_table London_table" "positive_table South_East_table" "positive_table UK_Average_table"
  "positive_table London_yearly" "positive_table South_East_yearly" "positive_table UK_Average_yearly"
  by (simp_all add: positive_table_def London_table_def South_East_table_def UK_Average_table_def
      London_yearly_def South_East_yearly_def UK_Average_yearly_def)

lemma positive_table_entry:
  "positive_table t \<Longrightarrow> map_of t y = Some v \<Longrightarrow> 0 < v"
  by (auto simp: positive_table_def list_all_iff dest!: map_of_SomeD)

lemma or_default_pos: "0 < d \<Longrightarrow> (\<And>x. v = Some x \<Longrightarrow> 0 < x) \<Longrightarrow> 0 < or_default v d"
  by (cases v) (auto simp: or_default_def)

lemma indexOld_pos: "positive_table t \<Longrightarrow> 0 < indexOld t s"
  unfolding indexOld_def
  by (rule or_default_pos) (auto simp: yearEntry_def split: option.splits dest: positive_table_entry)

lemma indexNew_pos: "positive_table t \<Longrightarrow> 0 < indexNew t"
  unfolding indexNew_def
  by (rule or_default_pos) (auto simp: yearEntry_def split: option.splits dest: positive_table_entry)

lemma indexDataOf_positive: "indexDataOf k = Some t \<Longrightarrow> positive_table t"
  using indexDataOf_cases [of k] positive_tables by auto

lemma indexDataOf_yearly_positive: "indexDataOf_yearly k = Some t \<Longrightarrow> positive_table t"
  using indexDataOf_yearly_cases [of k] positive_tables by auto

lemma indexDataOf_total: "\<exists>t. indexDataOf k = Some t"
  using indexDataOf_cases [of k] by auto

lemma indexDataOf_yearly_total: "\<exists>t. indexDataOf_yearly k = Some t"
  using indexDataOf_yearly_cases [of k] by auto

lemma calculateValuation_Inr:
  assumes "indexDataOf k = Some t"
  shows "calculateValuation g p k =
    Inr \<lparr>estimatedValue =
           (if lastSoldPrice p > 0
            then Math_round (of_int (lastSoldPrice p) * (indexNew t / indexOld t (soldYearOf g p)))
            else 0),
         lowerBound = Math_round (of_int (if lastSoldPrice p > 0
            then Math_round (of_int (lastSoldPrice p) * (indexNew t / indexOld t (soldYearOf g p)))
            else 0) * 0.95),
         upperBound = Math_round (of_int (if lastSoldPrice p > 0
            then Math_round (of_int (lastSoldPrice p) * (indexNew t / indexOld t (soldYearOf g p)))
            else 0) * 1.05),
         growthFactor = indexNew t / indexOld t (soldYearOf g p)\<rparr>"
  using assms indexOld_pos [OF indexDataOf_positive [OF assms], of "soldYearOf g p"]
  by (simp add: calculateValuation_def Let_def)

lemma calculateValuation_chart_Inr:
  assumes "indexDataOf_yearly k = Some t"
  shows "calculateValuation_chart g p k =
    Inr \<lparr>estimatedValue =
           Math_round (of_int (lastSoldPrice p) * (indexNew t / indexOld t (g (lastSoldDate p)))),
         lowerBound = Math_round (of_int
           (Math_round (of_int (lastSoldPrice p) * (indexNew t / indexOld t (g (lastSoldDate p)))))
             * 0.95),
         upperBound = Math_round (of_int
           (Math_round (of_int (lastSoldPrice p) * (indexNew t / indexOld t (g (lastSoldDate p)))))
             * 1.05),
         growthFactor = indexNew t / indexOld t (g (lastSoldDate p)),
         chartData = chartDataOf t (g (lastSoldDate p)) (lastSoldPrice p),
         regionKey = k\<rparr>"
  using assms or_default_nonzero [of 100 "yearEntry t (g (lastSoldDate p))"]
  by (simp add: calculateValuation_chart_def Let_def indexOld_def)

lemma indexDataOf_eq:
  "indexDataOf k = Some (case map_of HPI_DATA k of Some t \<Rightarrow> t | None \<Rightarrow> UK_Average_table)"
  by (simp add: indexDataOf_def HPI_DATA_def)

lemma indexDataOf_yearly_eq:
  "indexDataOf_yearly k =
     Some (case map_of HPI_DATA_yearly k of Some t \<Rightarrow> t | None \<Rightarrow> UK_Average_yearly)"
  by (simp add: indexDataOf_yearly_def HPI_DATA_yearly_def)

lemma indexOld_lookup:
  "positive_table t \<Longrightarrow> indexOld t y = (case yearEntry t y of Some v \<Rightarrow> v | None \<Rightarrow> 100)"
  by (auto simp: indexOld_def or_default_def yearEntry_def split: option.splits
      dest: positive_table_entry)

lemma current_year_entries:
  "yearEntry London_table (Some currentYear) = Some 130.5"
  "yearEntry South_East_table (Some currentYear) = Some 138.2"
  "yearEntry UK_Average_table (Some currentYear) = Some 143.2"
  "yearEntry London_yearly (Some currentYear) = Some 130.5"
  "yearEntry South_East_yearly (Some currentYear) = Some 138.2"
  "yearEntry UK_Average_yearly (Some currentYear) = Some 143.2"
  by (simp_all add: yearEntry_def currentYear_def London_table_def South_East_table_def
      UK_Average_table_def London_yearly_def South_East_yearly_def UK_Average_yearly_def)

lemma current_year_present: "indexDataOf k = Some t \<Longrightarrow> yearEntry t (Some currentYear) \<noteq> None"
  using indexDataOf_cases [of k] current_year_entries by auto

lemma current_year_present_yearly:
  "indexDataOf_yearly k = Some t \<Longrightarrow> yearEntry t (Some currentYear) \<noteq> None"
  using indexDataOf_yearly_cases [of k] current_year_entries by auto

lemma indexNew_lookup:
  "positive_table t \<Longrightarrow> yearEntry t (Some currentYear) \<noteq> None \<Longrightarrow>
   indexNew t = (case yearEntry t (Some currentYear) of Some v \<Rightarrow> v | None \<Rightarrow> 100)"
  by (auto simp: indexNew_def or_default_def yearEntry_def split: option.splits
      dest: positive_table_entry)

lemma indexFor_old: "indexDataOf k = Some t \<Longrightarrow> indexFor k y = indexOld t y"
  using indexDataOf_eq [of k]
  by (simp add: indexFor_def spec_indexFor_def indexOld_lookup indexDataOf_positive)

lemma indexNew_old: "indexDataOf k = Some t \<Longrightarrow> indexNew t = indexOld t (Some currentYear)"
  by (simp add: indexNew_lookup indexOld_lookup indexDataOf_positive current_year_present)

lemma indexFor_yearly_old: "indexDataOf_yearly k = Some t \<Longrightarrow> indexFor_yearly k y = indexOld t y"
  using indexDataOf_yearly_eq [of k]
  by (simp add: indexFor_yearly_def spec_indexFor_def indexOld_lookup indexDataOf_yearly_positive)

lemma indexNew_old_yearly:
  "indexDataOf_yearly k = Some t \<Longrightarrow> indexNew t = indexOld t (Some currentYear)"
  by (simp add: indexNew_lookup indexOld_lookup indexDataOf_yearly_positive
      current_year_present_yearly)

subsection \<open>The valuation\<close>



lemma example_valuation:
  "calculateValuation (\<lambda>d. Some 2005) downing_street ''London'' =
     Inr \<lparr>estimatedValue = 5872500, lowerBound = 5578875, upperBound = 6166125,
          growthFactor = 1.305\<rparr>"
  by (simp add: calculateValuation_def Let_def indexDataOf_def HPI_DATA_def London_table_def
      soldYearOf_def truthy_def downing_street_def indexOld_def indexNew_def yearEntry_def
      or_default_def currentYear_def Math_round_def)

lemma Math_round_0 [simp]: "Math_round 0 = 0"
  by (simp add: Math_round_def)






lemma base_year_entries:
  "yearEntry London_table (Some y) = Some 100 \<longleftrightarrow> y = 2015"
  "yearEntry South_East_table (Some y) = Some 100 \<longleftrightarrow> y = 2015"
  "yearEntry UK_Average_table (Some y) = Some 100 \<longleftrightarrow> y = 2015"
  by (simp_all add: yearEntry_def London_table_def South_East_table_def UK_Average_table_def)

lemma base_year: "indexDataOf k = Some t \<Longrightarrow> yearEntry t (Some y) = Some 100 \<longleftrightarrow> y = 2015"
  using indexDataOf_cases [of k] base_year_entries [of y] by auto

text \<open>
  Claim C5. For every property record without a date of last sale, the sold year that
  \<^verbatim>\<open>calculateValuation\<close> uses is 2015, which is the one year with index 100 in the
  table of every region key, so the growth factor is \<open>indexFor(region, currentYear) / 100\<close>.
\<close>

theorem no_date_base_year:
  assumes "lastSoldDate p = None"
  shows "soldYearOf g p = Some 2015
     \<and> (\<exists>v t. indexDataOf k = Some t \<and> (\<forall>y. yearEntry t (Some y) = Some 100 \<longleftrightarrow> y = 2015)
          \<and> calculateValuation g p k = Inr v
          \<and> growthFactor v = indexFor k (Some currentYear) / 100)"
proof -
  obtain t where t: "indexDataOf k = Some t"
    using indexDataOf_total by blast
  have year: "soldYearOf g p = Some 2015"
    using assms by (simp add: soldYearOf_def truthy_def)
  have "yearEntry t (Some 2015) = Some 100"
    using base_year [OF t, of 2015] by simp
  then have old: "indexOld t (Some 2015) = 100"
    by (simp add: indexOld_def or_default_def)
  show ?thesis
    using base_year [OF t]
    by (simp add: t year old calculateValuation_Inr [OF t] indexFor_old [OF t] indexNew_old [OF t])
qed

theorem no_date_base_year_witness:
  "lastSoldDate (downing_street\<lparr>lastSoldDate := None\<rparr>) = None
   \<and> soldYearOf (\<lambda>d. None) (downing_street\<lparr>lastSoldDate := None\<rparr>) = Some 2015
   \<and> (\<exists>v. calculateValuation (\<lambda>d. None) (downing_street\<lparr>lastSoldDate := None\<rparr>) ''London''
          = Inr v
        \<and> growthFactor v = indexFor ''London'' (Some currentYear) / 100)"
  using no_date_base_year [of "downing_street\<lparr>lastSoldDate := None\<rparr>" "\<lambda>d. None" "''London''"]
  by auto

lemma Math_round_lower: "0 \<le> e \<Longrightarrow> Math_round (of_int e * 0.95) \<le> e"
  unfolding Math_round_def floor_le_iff by simp

lemma Math_round_upper: "0 \<le> e \<Longrightarrow> e \<le> Math_round (of_int e * 1.05)"
  unfolding Math_round_def le_floor_iff by simp

lemma calculateValuation_bounds:
  assumes "calculateValuation g p k = Inr v"
  shows "lowerBound v = Math_round (of_int (estimatedValue v) * 0.95)"
    and "upperBound v = Math_round (of_int (estimatedValue v) * 1.05)"
  using assms
  by (auto simp: calculateValuation_def Let_def split: option.splits if_splits)

lemma calculateValuation_chart_bounds:
  assumes "calculateValuation_chart g p k = Inr r"
  shows "lowerBound r = Math_round (of_int (estimatedValue r) * 0.95)"
    and "upperBound r = Math_round (of_int (estimatedValue r) * 1.05)"
  using assms
  by (auto simp: calculateValuation_chart_def Let_def split: option.splits if_splits)

lemma calculateValuation_total: "\<exists>v. calculateValuation g p k = Inr v"
  using indexDataOf_total [of k] calculateValuation_Inr [of k _ g p] by auto

lemma calculateValuation_chart_total: "\<exists>r. calculateValuation_chart g p k = Inr r"
  using indexDataOf_yearly_total [of k] calculateValuation_chart_Inr [of k _ g p] by auto

text \<open>
  Claim C6. In every result of both revisions the lower bound is the rounded product of
  the estimated value and 0.95, the upper bound the rounded product of the estimated value
  and 1.05, and when the estimated value is above 0 it lies between the two bounds.
\<close>

theorem bounds:
  "(\<exists>v. calculateValuation g p k = Inr v
      \<and> lowerBound v = Math_round (of_int (estimatedValue v) * 0.95)
      \<and> upperBound v = Math_round (of_int (estimatedValue v) * 1.05)
      \<and> (0 < estimatedValue v \<longrightarrow>
            lowerBound v \<le> estimatedValue v \<and> estimatedValue v \<le> upperBound v))
   \<and> (\<exists>r. calculateValuation_chart g p k = Inr r
      \<and> lowerBound r = Math_round (of_int (estimatedValue r) * 0.95)
      \<and> upperBound r = Math_round (of_int (estimatedValue r) * 1.05)
      \<and> (0 < estimatedValue r \<longrightarrow>
            lowerBound r \<le> estimatedValue r \<and> estimatedValue r \<le> upperBound r))"
proof -
  obtain v where v: "calculateValuation g p k = Inr v"
    using calculateValuation_total by blast
  obtain r where r: "calculateValuation_chart g p k = Inr r"
    using calculateValuation_chart_total by blast
  note bv = calculateValuation_bounds [OF v]
  note br = calculateValuation_chart_bounds [OF r]
  have "0 < estimatedValue v \<longrightarrow>
          lowerBound v \<le> estimatedValue v \<and> estimatedValue v \<le> upperBound v"
    unfolding bv using Math_round_lower [of "estimatedValue v"]
      Math_round_upper [of "estimatedValue v"] by simp
  moreover have "0 < estimatedValue r \<longrightarrow>
          lowerBound r \<le> estimatedValue r \<and> estimatedValue r \<le> upperBound r"
    unfolding br using Math_round_lower [of "estimatedValue r"]
      Math_round_upper [of "estimatedValue r"] by simp
  ultimately show ?thesis
    using v r bv br by blast
qed

lemma example_chart_valuation:
  "\<exists>r. calculateValuation_chart (\<lambda>d. Some 2005) downing_street ''London'' = Inr r
     \<and> estimatedValue r = 9248031 \<and> lowerBound r = 8785629 \<and> upperBound r = 9710433"
proof -
  have t: "indexDataOf_yearly ''London'' = Some London_yearly"
    by (simp add: indexDataOf_yearly_def HPI_DATA_yearly_def)
  have new: "indexNew London_yearly = 130.5"
    by (simp add: indexNew_def yearEntry_def or_default_def currentYear_def London_yearly_def)
  have old: "indexOld London_yearly (Some 2005) = 63.5"
    by (simp add: indexOld_def yearEntry_def or_default_def London_yearly_def)
  have price: "lastSoldPrice downing_street = 4500000"
    by (simp add: downing_street_def)
  show ?thesis
    by (simp add: calculateValuation_chart_Inr [OF t] new old price Math_round_def)
qed

text \<open>The record of the mock list: both revisions estimate a value above 0.\<close>

theorem bounds_witness:
  "(\<exists>v. calculateValuation (\<lambda>d. Some 2005) downing_street ''London'' = Inr v
      \<and> 0 < estimatedValue v
      \<and> lowerBound v \<le> estimatedValue v \<and> estimatedValue v \<le> upperBound v)
   \<and> (\<exists>r. calculateValuation_chart (\<lambda>d. Some 2005) downing_street ''London'' = Inr r
      \<and> 0 < estimatedValue r
      \<and> lowerBound r \<le> estimatedValue r \<and> estimatedValue r \<le> upperBound r)"
proof -
  obtain v r where v: "calculateValuation (\<lambda>d. Some 2005) downing_street ''London'' = Inr v"
    and lev: "0 < estimatedValue v \<longrightarrow>
            lowerBound v \<le> estimatedValue v \<and> estimatedValue v \<le> upperBound v"
    and r: "calculateValuation_chart (\<lambda>d. Some 2005) downing_street ''London'' = Inr r"
    and ler: "0 < estimatedValue r \<longrightarrow>
            lowerBound r \<le> estimatedValue r \<and> estimatedValue r \<le> upperBound r"
    using bounds [of "\<lambda>d. Some 2005" downing_street "''London''"] by blast
  have "Inr v = (Inr \<lparr>estimatedValue = 5872500, lowerBound = 5578875, upperBound = 6166125,
          growthFactor = 1.305\<rparr> :: failure + valuation)"
    using v example_valuation by simp
  then have ev: "estimatedValue v = 5872500"
    by simp
  have er: "estimatedValue r = 9248031"
    using r example_chart_valuation by auto
  show ?thesis
    using v r lev ler ev er by simp
qed





text \<open>
  Claim C9. \<^verbatim>\<open>calculateValuation\<close> returns a result for every property record, every
  region key and every way of reading dates, in both revisions: it never reads a property
  of undefined and never divides by zero, so every field of the result is a number.
\<close>

theorem valuation_total:
  "(\<exists>v. calculateValuation g p k = Inr v) \<and> (\<exists>r. calculateValuation_chart g p k = Inr r)"
  using calculateValuation_total calculateValuation_chart_total by blast

text \<open>
  Claim C10. The growth factor of every result is strictly positive, in both revisions.
\<close>

theorem growth_positive:
  "(\<exists>v. calculateValuation g p k = Inr v \<and> 0 < growthFactor v)
   \<and> (\<exists>r. calculateValuation_chart g p k = Inr r \<and> 0 < growthFactor r)"
proof -
  obtain t where t: "indexDataOf k = Some t"
    using indexDataOf_total by blast
  obtain u where u: "indexDataOf_yearly k = Some u"
    using indexDataOf_yearly_total by blast
  have "0 < indexNew t / indexOld t (soldYearOf g p)"
    using indexNew_pos indexOld_pos indexDataOf_positive [OF t] by simp
  moreover have "0 < indexNew u / indexOld u (g (lastSoldDate p))"
    using indexNew_pos indexOld_pos indexDataOf_yearly_positive [OF u] by simp
  ultimately show ?thesis
    by (simp add: calculateValuation_Inr [OF t] calculateValuation_chart_Inr [OF u])
qed

subsection \<open>The region of a postcode\<close>

lemma startsWith_iff: "startsWith s t \<longleftrightarrow> (\<exists>post. s = t @ post)"
  by (induction s t rule: startsWith.induct) auto

lemma str_includes_iff: "str_includes s t \<longleftrightarrow> (\<exists>pre post. s = pre @ t @ post)"
proof (induction s)
  case Nil
  then show ?case by auto
next
  case (Cons a s)
  show ?case
  proof
    assume "str_includes (a # s) t"
    then consider "startsWith (a # s) t" | "str_includes s t"
      by auto
    then show "\<exists>pre post. a # s = pre @ t @ post"
    proof cases
      case 1
      then obtain post where "a # s = [] @ t @ post"
        by (auto simp: startsWith_iff)
      then show ?thesis by blast
    next
      case 2
      then obtain pre post where "s = pre @ t @ post"
        using Cons.IH by blast
      then have "a # s = (a # pre) @ t @ post"
        by simp
      then show ?thesis by blast
    qed
  next
    assume "\<exists>pre post. a # s = pre @ t @ post"
    then obtain pre post where eq: "a # s = pre @ t @ post"
      by blast
    show "str_includes (a # s) t"
    proof (cases pre)
      case Nil
      with eq have "startsWith (a # s) t"
        by (auto simp: startsWith_iff)
      then show ?thesis by simp
    next
      case (Cons b pre')
      with eq have "s = pre' @ t @ post"
        by simp
      then have "str_includes s t"
        using Cons.IH by blast
      then show ?thesis by simp
    qed
  qed
qed

lemma regionOf_first_match:
  "regionOf None = ''UK Average''"
  "labelIncludes label ''London'' \<Longrightarrow> regionOf label = ''London''"
  "\<not> labelIncludes label ''London'' \<Longrightarrow> labelIncludes label ''South East'' \<Longrightarrow>
     regionOf label = ''South East''"
  "\<not> labelIncludes label ''London'' \<Longrightarrow> \<not> labelIncludes label ''South East'' \<Longrightarrow>
     regionOf label = ''UK Average''"
  by (simp_all add: regionOf_def labelIncludes_def)

lemma regionKeyOf_last_match:
  "regionKeyOf label =
     (if labelIncludes label ''South East'' then ''South East''
      else if labelIncludes label ''London'' then ''London''
      else ''UK Average'')"
  by (simp add: regionKeyOf_def)

lemma regionKeyOf_agrees:
  "\<not> (labelIncludes label ''London'' \<and> labelIncludes label ''South East'') \<Longrightarrow>
     regionKeyOf label = regionOf label"
  by (auto simp: regionKeyOf_def regionOf_def)

text \<open>
  Claim C4 at a label that contains both names. The label holds \<^verbatim>\<open>London\<close>, which is
  tested first, and \<^verbatim>\<open>getRegionForPostcode\<close> answers \<^verbatim>\<open>London\<close> as the claim says;
  \<^verbatim>\<open>getPostcodeDetails\<close> runs the second test as well and answers \<^verbatim>\<open>South East\<close>.
\<close>

theorem both_names_last_test_wins:
  "labelIncludes (Some ''South East London'') ''London''
   \<and> labelIncludes (Some ''South East London'') ''South East''
   \<and> getPostcodeDetails (Reply 200 (Some ''South East London'') None ''SE1 7PB'') ''se17pb''
       = (''South East'', ''SE1 7PB'')
   \<and> getRegionForPostcode (Reply 200 (Some ''South East London'') None ''SE1 7PB'')
       = ''London''"
  by (simp add: getPostcodeDetails_def getRegionForPostcode_def regionKeyOf_def regionOf_def
      regionLabel_def truthy_def labelIncludes_def)

subsection \<open>The series of the chart\<close>






lemma year_ge_NaN: "filter (\<lambda>y. year_ge y None) ys = []"
  by (induction ys) (simp_all add: year_ge_def)






text \<open>
  The revision with the chart has no default year: for a record without a date the year
  is what the runtime reads from the absent value. When that is NaN, the growth factor
  is again \<open>indexFor(region, currentYear) / 100\<close>, and the series is empty.
\<close>

lemma no_date_chart_revision:
  assumes "g (lastSoldDate p) = None"
  shows "\<exists>r. calculateValuation_chart g p k = Inr r
     \<and> growthFactor r = indexFor_yearly k (Some currentYear) / 100 \<and> chartData r = []"
proof -
  obtain t where t: "indexDataOf_yearly k = Some t"
    using indexDataOf_yearly_total by blast
  have "indexOld t None = 100"
    by (simp add: indexOld_def yearEntry_def or_default_def)
  then show ?thesis
    using assms
    by (simp add: calculateValuation_chart_Inr [OF t] indexFor_yearly_old [OF t]
        indexNew_old_yearly [OF t] chartDataOf_def year_ge_NaN year_ge_def)
qed

end
